theory Spec2Isabelle
  imports Complex_Main
begin

section \<open>Values\<close>

text \<open>
  A thrown \<^verbatim>\<open>Error\<close> (equally: the reason of a rejected promise) is a value carrying its
  message. An \<^verbatim>\<open>async\<close> function is modelled by its settled outcome: \<open>Inl e\<close> when the
  promise rejects with \<open>e\<close>, \<open>Inr v\<close> when it resolves with \<open>v\<close>.
\<close>

datatype error = Error string

text \<open>
  A finite \<^verbatim>\<open>BigNumber\<close> (bignumber.js) is a decimal fraction, and \<^verbatim>\<open>plus\<close> and
  \<^verbatim>\<open>minus\<close> are exact on them, so amounts are rationals. A \<^verbatim>\<open>Buffer\<close> is its
  list of bytes.
\<close>

type_synonym BigNumber = rat
type_synonym Buffer = "nat list"

section \<open>ILP packets (package ilp-packet)\<close>

text \<open>
  \<^verbatim>\<open>IlpPrepare.amount\<close> is the decimal string of an unsigned integer; it is kept as the
  number it denotes.
\<close>

record IlpPrepare =
  destination :: string
  amount :: nat
  executionCondition :: Buffer
  expiresAt :: nat
  data :: Buffer

datatype IlpReply =
    IlpFulfill Buffer Buffer
  | IlpReject string string string Buffer

text \<open>
  The binary codec is imported from ilp-packet; the four functions this module calls are
  parameters of the model. Each of them can throw.
\<close>

record ilp_packet =
  deserializeIlpPrepare :: "Buffer \<Rightarrow> error + IlpPrepare"
  serializeIlpPrepare :: "IlpPrepare \<Rightarrow> error + Buffer"
  deserializeIlpReply :: "Buffer \<Rightarrow> error + IlpReply"
  serializeIlpReply :: "IlpReply \<Rightarrow> error + Buffer"

type_synonym DataHandler = "Buffer \<Rightarrow> error + Buffer"
type_synonym IlpPrepareHandler = "IlpPrepare \<Rightarrow> error + IlpReply"

section \<open>JavaScript string operations used by the router\<close>

text \<open>\<^verbatim>\<open>s.startsWith(pat)\<close>.\<close>

fun startsWith :: "string \<Rightarrow> string \<Rightarrow> bool" where
  "startsWith [] s = True"
| "startsWith (p # ps) [] = False"
| "startsWith (p # ps) (c # cs) = (p = c \<and> startsWith ps cs)"

text \<open>\<^verbatim>\<open>s.includes(pat)\<close>: \<open>pat\<close> occurs somewhere in \<open>s\<close>.\<close>

fun String_includes :: "string \<Rightarrow> string \<Rightarrow> bool" where
  "String_includes pat [] = (pat = [])"
| "String_includes pat (c # cs) = (startsWith pat (c # cs) \<or> String_includes pat cs)"

text \<open>
  \<^verbatim>\<open>s.replace(pat, rep)\<close> with a string pattern: only the first occurrence of \<open>pat\<close>,
  wherever it stands in \<open>s\<close>, is replaced; \<open>s\<close> is returned as it is when there is none.
  (The replacement used by the router is the empty string, so the \<^verbatim>\<open>$\<close> patterns of a
  replacement string play no role.)
\<close>

fun String_replace :: "string \<Rightarrow> string \<Rightarrow> string \<Rightarrow> string" where
  "String_replace pat rep [] = (if pat = [] then rep else [])"
| "String_replace pat rep (c # cs) =
     (if startsWith pat (c # cs) then rep @ drop (length pat) (c # cs)
      else c # String_replace pat rep cs)"

text \<open>
  \<^verbatim>\<open>s.split(sep)\<close> for a one-character separator: the empty string splits into one empty
  segment, and two adjacent separators enclose an empty segment.
\<close>

fun String_split :: "char \<Rightarrow> string \<Rightarrow> string list" where
  "String_split sep [] = [[]]"
| "String_split sep (c # cs) =
     (if c = sep then [] # String_split sep cs
      else (case String_split sep cs of
              [] \<Rightarrow> [[c]]
            | seg # segs \<Rightarrow> (c # seg) # segs))"

section \<open>Packet router (setupHandlers)\<close>

text \<open>
  \<^verbatim>\<open>prepare.destination.replace(clientAddress, '').split('.').some(a => !!a)\<close>:
  a string is truthy exactly when it is not empty.
\<close>

definition hasConnectionTag :: "string \<Rightarrow> string \<Rightarrow> bool" where
  "hasConnectionTag clientAddress dest =
     list_ex (\<lambda>a. a \<noteq> []) (String_split (CHR ''.'') (String_replace clientAddress [] dest))"

text \<open>Which handler the router invoked, and with what argument.\<close>

datatype handler_call = CallServerHandler Buffer | CallClientHandler IlpPrepare

text \<open>
  The data handler that \<^verbatim>\<open>setupHandlers\<close> registers on the plugin. The payload is
  \<open>None\<close> when the transport passes \<^verbatim>\<open>undefined\<close> (a \<^verbatim>\<open>Buffer\<close> object, even an empty
  one, is truthy). The result is the outcome of the handler's promise together with the
  handler calls it made.
\<close>

definition routeData ::
  "ilp_packet \<Rightarrow> string \<Rightarrow> DataHandler \<Rightarrow> IlpPrepareHandler \<Rightarrow> Buffer option
     \<Rightarrow> (error + Buffer) \<times> handler_call list" where
  "routeData codec clientAddress streamServerHandler streamClientHandler payload =
     (case payload of
        None \<Rightarrow> (Inl (Error ''no ilp packet included''), [])
      | Some buf \<Rightarrow>
          (case deserializeIlpPrepare codec buf of
             Inl e \<Rightarrow> (Inl e, [])
           | Inr prepare \<Rightarrow>
               if hasConnectionTag clientAddress (destination prepare)
               then (streamServerHandler buf, [CallServerHandler buf])
               else (case streamClientHandler prepare of
                       Inl e \<Rightarrow> (Inl e, [CallClientHandler prepare])
                     | Inr reply \<Rightarrow> (serializeIlpReply codec reply, [CallClientHandler prepare]))))"

text \<open>
  An address all of whose dot-separated segments are non-empty, as every address of the
  ILP address grammar is.
\<close>

definition nonemptySegments :: "string \<Rightarrow> bool" where
  "nonemptySegments dest = list_all (\<lambda>a. a \<noteq> []) (String_split (CHR ''.'') dest)"

section \<open>Observables (package rxjs)\<close>

text \<open>
  The four \<^verbatim>\<open>BehaviorSubject\<close>s a settlement engine supplies with a \<^verbatim>\<open>BaseUplink\<close>, and
  the three that \<^verbatim>\<open>connectUplink\<close> creates.
\<close>

datatype source = OutgoingCapacity | IncomingCapacity | TotalReceived | TotalSent

datatype derived = Balance | AvailableToSend | AvailableToReceive

text \<open>
  What \<^verbatim>\<open>connectUplink\<close> subscribes to a source: a created subject
  (\<^verbatim>\<open>source$.subscribe(subject$)\<close>), or the inner subscriber of \<^verbatim>\<open>combineLatest\<close> for the
  source at the given index of its argument list.
\<close>

datatype observer = Subscriber derived | CombineLatestInner nat

text \<open>
  The state of the subjects of one uplink: \<open>source_value\<close> and \<open>derived_value\<close> are what
  \<^verbatim>\<open>.value\<close> reads (a \<^verbatim>\<open>BehaviorSubject\<close> retains the value it emitted last),
  \<open>source_observers\<close> lists the subscribers in subscription order, \<open>derived_error\<close> is set
  once a created subject has received an error notification, and \<open>combineLatest_values\<close>
  is the array in which \<^verbatim>\<open>combineLatest\<close> keeps the latest value of each input (\<open>None\<close>
  until that input has emitted).
\<close>

record subjects =
  source_value :: "source \<Rightarrow> BigNumber"
  source_observers :: "source \<Rightarrow> observer list"
  derived_value :: "derived \<Rightarrow> BigNumber"
  derived_error :: "derived \<Rightarrow> error option"
  combineLatest_values :: "BigNumber option list"

text \<open>\<^verbatim>\<open>Array.prototype.reduce\<close> without an initial value: a TypeError on an empty array.\<close>

fun reduce :: "('a \<Rightarrow> 'a \<Rightarrow> 'a) \<Rightarrow> 'a list \<Rightarrow> error + 'a" where
  "reduce f [] = Inl (Error ''Reduce of empty array with no initial value'')"
| "reduce f (x # xs) = Inr (foldl f x xs)"

text \<open>The function that \<^verbatim>\<open>sumAll\<close> maps over the emitted arrays.\<close>

definition sumAll :: "BigNumber list \<Rightarrow> error + BigNumber" where
  "sumAll vals = reduce (\<lambda>a b. a + b) vals"

text \<open>\<^verbatim>\<open>next\<close> and \<^verbatim>\<open>error\<close> on a created subject; a stopped subject ignores both.\<close>

definition subject_next :: "derived \<Rightarrow> BigNumber \<Rightarrow> subjects \<Rightarrow> subjects" where
  "subject_next d v s =
     (if derived_error s d = None then s\<lparr>derived_value := (derived_value s)(d := v)\<rparr> else s)"

definition subject_error :: "derived \<Rightarrow> error \<Rightarrow> subjects \<Rightarrow> subjects" where
  "subject_error d e s =
     (if derived_error s d = None then s\<lparr>derived_error := (derived_error s)(d := Some e)\<rparr> else s)"

text \<open>
  Delivery of one value to one subscriber. The inner subscriber of \<^verbatim>\<open>combineLatest\<close>
  stores the value at its index and, once every input has emitted, passes a copy of the
  array on: \<^verbatim>\<open>map\<close> applies \<open>sumAll\<close> and sends the sum (or the error it threw) to
  \<^verbatim>\<open>balance$\<close>. The index is always within the array, which \<^verbatim>\<open>combineLatest\<close> allocates
  with one cell per input.
\<close>

fun notify :: "observer \<Rightarrow> BigNumber \<Rightarrow> subjects \<Rightarrow> subjects" where
  "notify (Subscriber d) v s = subject_next d v s"
| "notify (CombineLatestInner i) v s =
     (let vals = (combineLatest_values s)[i := Some v];
          s' = s\<lparr>combineLatest_values := vals\<rparr>
      in if list_all (\<lambda>x. x \<noteq> None) vals
         then (case sumAll (map the vals) of
                 Inr b \<Rightarrow> subject_next Balance b s'
               | Inl e \<Rightarrow> subject_error Balance e s')
         else s')"

text \<open>
  Subscribing to a \<^verbatim>\<open>BehaviorSubject\<close> appends the subscriber and at once delivers the
  current value to it.
\<close>

definition subscribe :: "source \<Rightarrow> observer \<Rightarrow> subjects \<Rightarrow> subjects" where
  "subscribe src obs s =
     notify obs (source_value s src)
       (s\<lparr>source_observers := (source_observers s)(src := source_observers s src @ [obs])\<rparr>)"

text \<open>\<^verbatim>\<open>combineLatest(...srcs).pipe(sumAll).subscribe(balance$)\<close>.\<close>

definition subscribe_combineLatest :: "source list \<Rightarrow> subjects \<Rightarrow> subjects" where
  "subscribe_combineLatest srcs s =
     fold (\<lambda>(i, src). subscribe src (CombineLatestInner i)) (enumerate 0 srcs)
       (s\<lparr>combineLatest_values := replicate (length srcs) None\<rparr>)"

text \<open>\<^verbatim>\<open>src$.next(v)\<close>, called by the settlement engine: an emission of a source.\<close>

definition emit :: "source \<Rightarrow> BigNumber \<Rightarrow> subjects \<Rightarrow> subjects" where
  "emit src v s =
     fold (\<lambda>obs. notify obs v) (source_observers s src)
       (s\<lparr>source_value := (source_value s)(src := v)\<rparr>)"

text \<open>A sequence of emissions, oldest first.\<close>

definition emissions :: "(source \<times> BigNumber) list \<Rightarrow> subjects \<Rightarrow> subjects" where
  "emissions evs s = fold (\<lambda>(src, v). emit src v) evs s"

section \<open>Uplinks\<close>

text \<open>The settlement engines of the README: Lightning, Machinomy and XRP payment channels.\<close>

datatype SettlementEngineType = Lnd | Machinomy | XrpPaychan

text \<open>
  The unit, quantity and rate-backend types belong to the package crypto-rate-utils and
  are opaque here: they are the type parameters \<open>'u\<close>, \<open>'q\<close> and \<open>'r\<close>.
\<close>

record 'u SettlementEngine =
  assetCode :: string
  assetScale :: int
  baseUnit :: 'u

record ('q, 'r) State =
  maxInFlightUsd :: 'q
  rateBackend :: 'r

record BaseUplinkConfig =
  settlerType :: SettlementEngineType
  serverSecret :: Buffer

text \<open>
  A \<^verbatim>\<open>BaseUplink\<close>; each of its \<^verbatim>\<open>BehaviorSubject\<close>s is given by the value it holds when
  the uplink is handed to \<^verbatim>\<open>connectUplink\<close>.
\<close>

record BaseUplink =
  uplink_settlerType :: SettlementEngineType
  credentialId :: string
  outgoingCapacity :: BigNumber
  incomingCapacity :: BigNumber
  totalReceived :: BigNumber
  totalSent :: BigNumber

text \<open>The answer of the asset-details handshake (package ilp-protocol-ildcp).\<close>

record IldcpResponse =
  peer_clientAddress :: string
  peer_assetCode :: string
  peer_assetScale :: int

text \<open>
  The object \<^verbatim>\<open>handlers\<close> of \<^verbatim>\<open>connectUplink\<close> with its two mutable slots. Objects are
  held in a heap and named by their address, since the same object is reached from the
  closures given to \<^verbatim>\<open>setupHandlers\<close>, from the callback given to the stream server and
  from the value that \<^verbatim>\<open>connectUplink\<close> returns.
\<close>

type_synonym ref = nat

record handlers =
  streamServerHandler :: DataHandler
  streamClientHandler :: IlpPrepareHandler

type_synonym heap = "ref \<Rightarrow> handlers"

text \<open>
  A registered data handler is a closure: it is run against the heap as it is when a
  packet arrives.
\<close>

type_synonym registeredHandler = "heap \<Rightarrow> Buffer option \<Rightarrow> (error + Buffer) \<times> handler_call list"

text \<open>
  The accounting wrapper, as far as this module configures it: the options of its
  constructor that are amounts or asset details, and the data handler registered on it.
\<close>

record PluginWrapper =
  maxBalance :: BigNumber
  maxPacketAmount :: BigNumber
  wrapper_assetCode :: string
  wrapper_assetScale :: int
  dataHandler :: "registeredHandler option"

type_synonym StreamServer = nat

text \<open>
  A \<^verbatim>\<open>ReadyUplink\<close>. \<^verbatim>\<open>Object.assign(handlers, {...})\<close> returns its first argument, so the
  uplink is the object \<^verbatim>\<open>handlers\<close> itself: \<open>handlers_ref\<close> is its address, and its two handler
  slots (the only fields that are not \<^verbatim>\<open>readonly\<close>) are the ones in the heap.
  \<open>subject_state\<close> holds the seven subjects and their subscriptions.
\<close>

record ReadyUplink =
  handlers_ref :: ref
  base :: BaseUplink
  clientAddress :: string
  streamServer :: StreamServer
  maxInFlight :: BigNumber
  pluginWrapper :: PluginWrapper
  subject_state :: subjects

text \<open>Calls made on the collaborators of this module, in program order.\<close>

datatype call =
    GetOrCreateSettler SettlementEngineType
  | PluginConnect
  | FetchAssetDetails
  | PluginDisconnect
  | Convert
  | NewPluginWrapper BigNumber BigNumber
  | DeregisterDataHandler
  | RegisterDataHandler
  | StartStreamServer
  | StopStreamServer
  | SendMoney BigNumber
  | SendData Buffer

text \<open>
  The state this module acts on: the heap, the calls made so far, the lines written with
  \<^verbatim>\<open>log.error\<close>, and the amounts of the settlement transfers the transport has been
  asked to make.
\<close>

record world =
  heap :: heap
  next_ref :: ref
  calls :: "call list"
  logged :: "(string \<times> error) list"
  transfers :: "BigNumber list"

definition called :: "call \<Rightarrow> world \<Rightarrow> world" where
  "called c w = w\<lparr>calls := calls w @ [c]\<rparr>"

text \<open>The calls made between an earlier world and a later one.\<close>

definition calls_since :: "world \<Rightarrow> world \<Rightarrow> call list" where
  "calls_since w w' = drop (length (calls w)) (calls w')"

text \<open>\<^verbatim>\<open>log.error(msg, err)\<close>.\<close>

definition log_error :: "string \<Rightarrow> error \<Rightarrow> world \<Rightarrow> world" where
  "log_error msg err w = w\<lparr>logged := logged w @ [(msg, err)]\<rparr>"

text \<open>
  The collaborators: what each imported function or method call does when this module
  calls it. \<open>getOrCreateSettler\<close> reads the registry of settlers kept in the state;
  \<open>startStreamServer\<close> gives the handler the server registers through the callback it is
  passed (if it registers one) and the outcome of the start; \<open>payableBalance\<close> is what
  \<^verbatim>\<open>pluginWrapper.payableBalance$.value\<close> reads; \<open>wrapper_sendMoney\<close> gives the outcome
  of the wrapper's \<^verbatim>\<open>sendMoney\<close> and the transfers it has the transport make.
\<close>

record ('q, 'u, 'r) env =
  ilp :: ilp_packet
  getOrCreateSettler :: "('q, 'r) State \<Rightarrow> SettlementEngineType \<Rightarrow> error + 'u SettlementEngine"
  plugin_connect :: "error + unit"
  plugin_disconnect :: "error + unit"
  fetchAssetDetails :: "error + IldcpResponse"
  convert :: "'q \<Rightarrow> 'u \<Rightarrow> 'r \<Rightarrow> error + BigNumber"
  startStreamServer :: "Buffer \<Rightarrow> DataHandler option \<times> (error + StreamServer)"
  stopStreamServer :: "StreamServer \<Rightarrow> error + unit"
  payableBalance :: BigNumber
  wrapper_sendMoney :: "BigNumber \<Rightarrow> (error + unit) \<times> BigNumber list"
  wrapper_sendData :: "Buffer \<Rightarrow> error + Buffer"
  defaultDataHandler :: DataHandler
  defaultIlpPrepareHandler :: IlpPrepareHandler

section \<open>connectUplink\<close>

text \<open>
  \<^verbatim>\<open>setupHandlers\<close>: the handler is deregistered, then the router is registered. The two
  handler arguments are the closures \<^verbatim>\<open>connectUplink\<close> passes, which read a slot of
  \<^verbatim>\<open>handlers\<close> when they are called.
\<close>

definition setupHandlers ::
  "ilp_packet \<Rightarrow> PluginWrapper \<Rightarrow> string \<Rightarrow> (heap \<Rightarrow> DataHandler) \<Rightarrow> (heap \<Rightarrow> IlpPrepareHandler)
     \<Rightarrow> world \<Rightarrow> PluginWrapper \<times> world" where
  "setupHandlers codec plugin clientAddr serverHandler clientHandler w =
     (let plugin1 = plugin\<lparr>dataHandler := None\<rparr>;
          w1 = called DeregisterDataHandler w;
          plugin2 = plugin1\<lparr>dataHandler :=
            Some (\<lambda>h payload. routeData codec clientAddr (serverHandler h) (clientHandler h) payload)\<rparr>;
          w2 = called RegisterDataHandler w1
      in (plugin2, w2))"

definition incompatiblePeer :: error where
  "incompatiblePeer = Error ''Upstream connector is using a different asset or configuration''"

definition verifyUpstreamAssetDetails ::
  "('q, 'u, 'r) env \<Rightarrow> 'u SettlementEngine \<Rightarrow> world \<Rightarrow> (error + string) \<times> world" where
  "verifyUpstreamAssetDetails env settler w =
     (let w1 = called FetchAssetDetails w in
      case fetchAssetDetails env of
        Inl e \<Rightarrow> (Inl e, w1)
      | Inr details \<Rightarrow>
          if peer_assetCode details \<noteq> assetCode settler
             \<or> peer_assetScale details \<noteq> assetScale settler
          then (let w2 = called PluginDisconnect w1 in
                case plugin_disconnect env of
                  Inl e \<Rightarrow> (Inl e, w2)
                | Inr _ \<Rightarrow> (Inl incompatiblePeer, w2))
          else (Inr (peer_clientAddress details), w1))"

text \<open>
  \<^verbatim>\<open>x.dp(n, BigNumber.ROUND_DOWN)\<close>: \<open>x\<close> rounded towards zero to \<open>n\<close> decimal places.
\<close>

definition dp_ROUND_DOWN :: "nat \<Rightarrow> BigNumber \<Rightarrow> BigNumber" where
  "dp_ROUND_DOWN n x =
     (let scaled = x * 10 ^ n
      in of_int (if 0 \<le> scaled then \<lfloor>scaled\<rfloor> else \<lceil>scaled\<rceil>) / 10 ^ n)"

definition getNativeMaxInFlight ::
  "('q, 'u, 'r) env \<Rightarrow> ('q, 'r) State \<Rightarrow> SettlementEngineType \<Rightarrow> world
     \<Rightarrow> (error + BigNumber) \<times> world" where
  "getNativeMaxInFlight env state ty w =
     (let w1 = called (GetOrCreateSettler ty) w in
      case getOrCreateSettler env state ty of
        Inl e \<Rightarrow> (Inl e, w1)
      | Inr settler \<Rightarrow>
          (let w2 = called Convert w1 in
           case convert env (maxInFlightUsd state) (baseUnit settler) (rateBackend state) of
             Inl e \<Rightarrow> (Inl e, w2)
           | Inr v \<Rightarrow> (Inr (dp_ROUND_DOWN 0 v), w2)))"

text \<open>The sources with the values of the base uplink, and the created subjects at 0.\<close>

definition new_subjects :: "BaseUplink \<Rightarrow> subjects" where
  "new_subjects uplink =
     \<lparr>source_value = (\<lambda>src. case src of
          OutgoingCapacity \<Rightarrow> outgoingCapacity uplink
        | IncomingCapacity \<Rightarrow> incomingCapacity uplink
        | TotalReceived \<Rightarrow> totalReceived uplink
        | TotalSent \<Rightarrow> totalSent uplink),
      source_observers = (\<lambda>src. []),
      derived_value = (\<lambda>d. 0),
      derived_error = (\<lambda>d. None),
      combineLatest_values = []\<rparr>"

definition connectUplink ::
  "('q, 'u, 'r) env \<Rightarrow> ('q, 'r) State \<Rightarrow> BaseUplink \<Rightarrow> BaseUplinkConfig \<Rightarrow> world
     \<Rightarrow> (error + ReadyUplink) \<times> world" where
  "connectUplink env state uplink config w =
     (let w1 = called (GetOrCreateSettler (settlerType config)) w in
      case getOrCreateSettler env state (settlerType config) of
        Inl e \<Rightarrow> (Inl e, w1)
      | Inr settler \<Rightarrow>
     (let w2 = called PluginConnect w1 in
      case plugin_connect env of
        Inl e \<Rightarrow> (Inl e, w2)
      | Inr _ \<Rightarrow>
     (case verifyUpstreamAssetDetails env settler w2 of
        (Inl e, w3) \<Rightarrow> (Inl e, w3)
      | (Inr clientAddr, w3) \<Rightarrow>
     (let s1 = subscribe_combineLatest [OutgoingCapacity, TotalReceived] (new_subjects uplink) in
      case getNativeMaxInFlight env state (settlerType config) w3 of
        (Inl e, w4) \<Rightarrow> (Inl e, w4)
      | (Inr maxInFl, w4) \<Rightarrow>
     (let wrapper = \<lparr>maxBalance = maxInFl, maxPacketAmount = maxInFl,
                     wrapper_assetCode = assetCode settler,
                     wrapper_assetScale = assetScale settler,
                     dataHandler = None\<rparr>;
          w5 = called (NewPluginWrapper maxInFl maxInFl) w4;
          s2 = subscribe IncomingCapacity (Subscriber AvailableToReceive) s1;
          s3 = subscribe OutgoingCapacity (Subscriber AvailableToSend) s2;
          r = next_ref w5;
          w6 = w5\<lparr>heap := (heap w5)(r :=
                   \<lparr>streamServerHandler = defaultDataHandler env,
                    streamClientHandler = defaultIlpPrepareHandler env\<rparr>),
                 next_ref := Suc r\<rparr>;
          (wrapper', w7) = setupHandlers (ilp env) wrapper clientAddr
                             (\<lambda>h. streamServerHandler (h r)) (\<lambda>h. streamClientHandler (h r)) w6;
          w8 = called StartStreamServer w7;
          (registered, started) = startStreamServer env (serverSecret config);
          w9 = (case registered of
                  None \<Rightarrow> w8
                | Some handler \<Rightarrow>
                    w8\<lparr>heap := (heap w8)(r := (heap w8 r)\<lparr>streamServerHandler := handler\<rparr>)\<rparr>)
      in case started of
           Inl e \<Rightarrow> (Inl e, w9)
         | Inr server \<Rightarrow>
             (Inr \<lparr>handlers_ref = r, base = uplink, clientAddress = clientAddr, streamServer = server,
                   maxInFlight = maxInFl, pluginWrapper = wrapper', subject_state = s3\<rparr>,
              w9))))))"

section \<open>Sending, handler registration, teardown\<close>

text \<open>
  \<^verbatim>\<open>sendPacket\<close>. The settlement is requested first and not awaited: its rejection is only
  logged by the \<^verbatim>\<open>catch\<close> callback. \<^verbatim>\<open>BigNumber.minus\<close> takes the amount of the Prepare;
  the argument of \<^verbatim>\<open>sendMoney\<close> is the decimal string of the difference and is kept as
  the number.
\<close>

definition sendPacket ::
  "('q, 'u, 'r) env \<Rightarrow> ReadyUplink \<Rightarrow> IlpPrepare \<Rightarrow> world \<Rightarrow> (error + IlpReply) \<times> world" where
  "sendPacket env uplink prepare w =
     (let additionalPrefundRequired = payableBalance env - of_nat (amount prepare);
          (settled, moved) = wrapper_sendMoney env additionalPrefundRequired;
          w1 = (called (SendMoney additionalPrefundRequired) w)\<lparr>transfers := transfers w @ moved\<rparr>;
          w2 = (case settled of
                  Inl err \<Rightarrow> log_error ''Error during outgoing settlement: '' err w1
                | Inr _ \<Rightarrow> w1)
      in case serializeIlpPrepare (ilp env) prepare of
           Inl e \<Rightarrow> (Inl e, w2)
         | Inr buf \<Rightarrow>
             (let w3 = called (SendData buf) w2 in
              case wrapper_sendData env buf of
                Inl e \<Rightarrow> (Inl e, w3)
              | Inr reply \<Rightarrow> (deserializeIlpReply (ilp env) reply, w3)))"

text \<open>\<^verbatim>\<open>uplink.streamClientHandler = handler\<close>: an assignment to a slot of the uplink object.\<close>

definition registerPacketHandler :: "IlpPrepareHandler \<Rightarrow> ReadyUplink \<Rightarrow> world \<Rightarrow> world" where
  "registerPacketHandler handler uplink w =
     w\<lparr>heap := (heap w)(handlers_ref uplink := (heap w (handlers_ref uplink))\<lparr>streamClientHandler := handler\<rparr>)\<rparr>"

definition deregisterPacketHandler :: "('q, 'u, 'r) env \<Rightarrow> ReadyUplink \<Rightarrow> world \<Rightarrow> world" where
  "deregisterPacketHandler env = registerPacketHandler (defaultIlpPrepareHandler env)"

definition disconnect :: "('q, 'u, 'r) env \<Rightarrow> ReadyUplink \<Rightarrow> world \<Rightarrow> (error + unit) \<times> world" where
  "disconnect env uplink w =
     (let w1 = called StopStreamServer w;
          w2 = (case stopStreamServer env (streamServer uplink) of
                  Inl err \<Rightarrow> log_error ''Error stopping Stream server: '' err w1
                | Inr _ \<Rightarrow> w1);
          w3 = called PluginDisconnect w2
      in (plugin_disconnect env, w3))"

text \<open>
  Modelled from the spec: \<^verbatim>\<open>PluginWrapper.sendMoney\<close> (utils/middlewares is not among the
  sources). The spec has the send protocol ``trigger a settlement transfer of
  additionalPrefundRequired on the wrapper; if the value is \<open>\<le> 0\<close> this is a no-op'', and
  the comment in \<^verbatim>\<open>sendPacket\<close> says that \<^verbatim>\<open>sendMoney\<close> simply returns when the amount is
  0 or negative. For a positive amount the transfer is made on the transport, by the
  given \<open>transport_sendMoney\<close>.
\<close>

definition PluginWrapper_sendMoney ::
  "(BigNumber \<Rightarrow> error + unit) \<Rightarrow> BigNumber \<Rightarrow> (error + unit) \<times> BigNumber list" where
  "PluginWrapper_sendMoney transport_sendMoney amt =
     (if amt \<le> 0 then (Inr (), []) else (transport_sendMoney amt, [amt]))"

section \<open>Invariant of the subscriptions made by connectUplink\<close>

definition wired :: "subjects \<Rightarrow> bool" where
  "wired s \<longleftrightarrow>
     source_observers s =
       (\<lambda>src. case src of
          OutgoingCapacity \<Rightarrow> [CombineLatestInner 0, Subscriber AvailableToSend]
        | IncomingCapacity \<Rightarrow> [Subscriber AvailableToReceive]
        | TotalReceived \<Rightarrow> [CombineLatestInner 1]
        | TotalSent \<Rightarrow> [])
     \<and> combineLatest_values s =
         [Some (source_value s OutgoingCapacity), Some (source_value s TotalReceived)]
     \<and> derived_error s Balance = None
     \<and> derived_value s Balance = source_value s OutgoingCapacity + source_value s TotalReceived"

section \<open>An example configuration\<close>

text \<open>
  A Prepare of amount 100, and a stand-in codec: every non-empty payload parses as that
  Prepare for the given destination, and packets are serialized to their type byte
  (12 Prepare, 13 Fulfill, 14 Reject).
\<close>

definition example_prepare :: "string \<Rightarrow> IlpPrepare" where
  "example_prepare dest =
     \<lparr>destination = dest, amount = 100, executionCondition = replicate 32 0,
      expiresAt = 0, data = []\<rparr>"

definition example_codec :: "string \<Rightarrow> ilp_packet" where
  "example_codec dest =
     \<lparr>deserializeIlpPrepare =
        (\<lambda>buf. if buf = [] then Inl (Error ''unexpected end of buffer'')
               else Inr (example_prepare dest)),
      serializeIlpPrepare = (\<lambda>p. Inr [12]),
      deserializeIlpReply =
        (\<lambda>buf. if buf = [13] then Inr (IlpFulfill [] [])
               else if buf = [14] then Inr (IlpReject ''F00'' [] [] [])
               else Inl (Error ''invalid packet type'')),
      serializeIlpReply =
        (\<lambda>r. case r of IlpFulfill f d \<Rightarrow> Inr [13] | IlpReject c m t d \<Rightarrow> Inr [14])\<rparr>"

text \<open>
  An XRP settler with scale 6 behind a peer that assigns the address g.kava.abc123 and
  agrees on the asset; a ceiling of 10 cents at 10/3 XRP to the dollar; a transport that
  fulfills every packet; a wrapper whose payable balance is 30.
\<close>

definition example_env :: "(rat, nat, rat) env" where
  "example_env =
     \<lparr>ilp = example_codec ''g.kava.abc123'',
      getOrCreateSettler = (\<lambda>st ty. Inr \<lparr>assetCode = ''XRP'', assetScale = 6, baseUnit = 6\<rparr>),
      plugin_connect = Inr (),
      plugin_disconnect = Inr (),
      fetchAssetDetails =
        Inr \<lparr>peer_clientAddress = ''g.kava.abc123'', peer_assetCode = ''XRP'',
             peer_assetScale = 6\<rparr>,
      convert = (\<lambda>usd scale rate. Inr (usd * rate * 10 ^ scale)),
      startStreamServer = (\<lambda>secret. (Some (\<lambda>buf. Inr [14]), Inr 1)),
      stopStreamServer = (\<lambda>server. Inr ()),
      payableBalance = 30,
      wrapper_sendMoney = PluginWrapper_sendMoney (\<lambda>amt. Inr ()),
      wrapper_sendData = (\<lambda>buf. Inr [13]),
      defaultDataHandler = (\<lambda>buf. Inl (Error ''no data handler registered'')),
      defaultIlpPrepareHandler = (\<lambda>p. Inr (IlpReject ''F02'' [] [] []))\<rparr>"

definition example_state :: "(rat, rat) State" where
  "example_state = \<lparr>maxInFlightUsd = 1 / 10, rateBackend = 10 / 3\<rparr>"

definition example_config :: BaseUplinkConfig where
  "example_config = \<lparr>settlerType = XrpPaychan, serverSecret = replicate 32 7\<rparr>"

definition example_uplink :: BaseUplink where
  "example_uplink =
     \<lparr>uplink_settlerType = XrpPaychan, credentialId = ''r4example'',
      outgoingCapacity = 10, incomingCapacity = 3, totalReceived = 5, totalSent = 0\<rparr>"

definition example_world :: world where
  "example_world =
     \<lparr>heap = (\<lambda>r. \<lparr>streamServerHandler = (\<lambda>buf. Inl (Error ''unallocated'')),
                     streamClientHandler = (\<lambda>p. Inl (Error ''unallocated''))\<rparr>),
      next_ref = 0, calls = [], logged = [], transfers = []\<rparr>"

definition example_ready :: ReadyUplink where
  "example_ready =
     \<lparr>handlers_ref = 0, base = example_uplink, clientAddress = ''g.kava.abc123'',
      streamServer = 1, maxInFlight = 333333,
      pluginWrapper =
        \<lparr>maxBalance = 333333, maxPacketAmount = 333333, wrapper_assetCode = ''XRP'',
         wrapper_assetScale = 6, dataHandler = None\<rparr>,
      subject_state = new_subjects example_uplink\<rparr>"

text \<open>
  The same environment with a peer that reports ETH at scale 9 (Scenario B), and with a
  given outcome of \<^verbatim>\<open>plugin.disconnect()\<close>.
\<close>

definition example_env_mismatch :: "error + unit \<Rightarrow> (rat, nat, rat) env" where
  "example_env_mismatch disconnected =
     example_env
       \<lparr>plugin_disconnect := disconnected,
        fetchAssetDetails :=
          Inr \<lparr>peer_clientAddress = ''g.kava.abc123'', peer_assetCode = ''ETH'',
               peer_assetScale = 9\<rparr>\<rparr>"

section \<open>Properties of the string operations\<close>

lemma startsWith_self: "startsWith s s"
  by (induction s) simp_all

lemma startsWith_append: "startsWith p (p @ s)"
  by (induction p) simp_all

lemma startsWith_iff: "startsWith p s \<longleftrightarrow> (\<exists>post. s = p @ post)"
  by (induction p s rule: startsWith.induct) auto

lemma String_includes_iff: "String_includes pat s \<longleftrightarrow> (\<exists>pre post. s = pre @ pat @ post)"
proof (induction s)
  case Nil
  then show ?case by auto
next
  case (Cons c cs)
  show ?case
  proof
    assume "String_includes pat (c # cs)"
    then consider "startsWith pat (c # cs)" | "String_includes pat cs"
      by auto
    then show "\<exists>pre post. c # cs = pre @ pat @ post"
    proof cases
      case 1
      then obtain post where "c # cs = pat @ post"
        using startsWith_iff by blast
      then have "c # cs = [] @ pat @ post" by simp
      then show ?thesis by blast
    next
      case 2
      then obtain pre post where "cs = pre @ pat @ post"
        using Cons.IH by blast
      then have "c # cs = (c # pre) @ pat @ post" by simp
      then show ?thesis by blast
    qed
  next
    assume "\<exists>pre post. c # cs = pre @ pat @ post"
    then obtain pre post where eq: "c # cs = pre @ pat @ post"
      by blast
    show "String_includes pat (c # cs)"
    proof (cases pre)
      case Nil
      then have "startsWith pat (c # cs)"
        using eq startsWith_iff by auto
      then show ?thesis by simp
    next
      case (Cons p pre')
      then have "cs = pre' @ pat @ post"
        using eq by simp
      then have "String_includes pat cs"
        using Cons.IH by blast
      then show ?thesis by simp
    qed
  qed
qed

lemma String_replace_self: "String_replace s [] s = []"
  by (cases s) (simp_all add: startsWith_self)

lemma String_replace_prefix: "String_replace p [] (p @ s) = s"
proof (cases "p @ s")
  case Nil
  then show ?thesis by simp
next
  case (Cons c cs)
  have "startsWith p (c # cs)"
    using startsWith_append [of p s] Cons by simp
  then have "String_replace p [] (c # cs) = drop (length p) (c # cs)"
    by simp
  then show ?thesis
    using Cons by (metis append_eq_conv_conj)
qed

lemma String_replace_absent: "\<not> String_includes pat s \<Longrightarrow> String_replace pat rep s = s"
  by (induction s) simp_all

lemma String_split_not_Nil: "String_split sep s \<noteq> []"
  by (induction s) (simp_all split: list.splits)

lemma String_split_some_iff:
  "list_ex (\<lambda>a. a \<noteq> []) (String_split sep s) = (\<exists>c \<in> set s. c \<noteq> sep)"
proof (induction s)
  case Nil
  then show ?case by simp
next
  case (Cons c cs)
  show ?case
  proof (cases "c = sep")
    case True
    then show ?thesis using Cons by simp
  next
    case False
    obtain seg segs where "String_split sep cs = seg # segs"
      using String_split_not_Nil [of sep cs] by (cases "String_split sep cs") auto
    then show ?thesis using False by auto
  qed
qed

lemma hasConnectionTag_self: "\<not> hasConnectionTag a a"
  by (simp add: hasConnectionTag_def String_replace_self)

lemma hasConnectionTag_extra_segment:
  assumes "\<exists>c \<in> set tag. c \<noteq> CHR ''.''"
  shows "hasConnectionTag a (a @ CHR ''.'' # tag)"
proof -
  have "String_replace a [] (a @ CHR ''.'' # tag) = CHR ''.'' # tag"
    by (rule String_replace_prefix)
  then show ?thesis
    using assms by (simp add: hasConnectionTag_def String_split_some_iff)
qed

lemma nonemptySegments_some:
  "nonemptySegments dest \<Longrightarrow> list_ex (\<lambda>a. a \<noteq> []) (String_split (CHR ''.'') dest)"
  using String_split_not_Nil [of "CHR ''.''" dest]
  by (cases "String_split (CHR ''.'') dest") (simp_all add: nonemptySegments_def)

section \<open>Routing of inbound packets\<close>

text \<open>
  C5. A payload that is present and parses as a Prepare is routed by its destination.
  When the destination is exactly the client address, the parsed Prepare goes to the
  client handler (and only to it) and the handler's Reply is serialized for the result;
  a rejection of the handler is the result as it is. When a non-empty segment remains
  after the client address is removed from the destination (in particular when the
  destination is the client address followed by a dot and a tag that is not made of
  dots only), the raw bytes go to the server handler (and only to it) and its outcome
  is returned unchanged.
\<close>

theorem routeData_by_destination:
  assumes "deserializeIlpPrepare codec buf = Inr prepare"
  shows "(destination prepare = addr \<longrightarrow>
            routeData codec addr server client (Some buf) =
              ((case client prepare of
                  Inl e \<Rightarrow> Inl e
                | Inr reply \<Rightarrow> serializeIlpReply codec reply),
               [CallClientHandler prepare]))
       \<and> (list_ex (\<lambda>a. a \<noteq> [])
            (String_split (CHR ''.'') (String_replace addr [] (destination prepare))) \<longrightarrow>
            routeData codec addr server client (Some buf) =
              (server buf, [CallServerHandler buf]))
       \<and> ((\<exists>tag. destination prepare = addr @ CHR ''.'' # tag
                  \<and> (\<exists>c \<in> set tag. c \<noteq> CHR ''.'')) \<longrightarrow>
            routeData codec addr server client (Some buf) =
              (server buf, [CallServerHandler buf]))"
proof (intro conjI impI)
  assume "destination prepare = addr"
  then have "\<not> hasConnectionTag addr (destination prepare)"
    by (simp add: hasConnectionTag_self)
  then show "routeData codec addr server client (Some buf) =
      ((case client prepare of Inl e \<Rightarrow> Inl e | Inr reply \<Rightarrow> serializeIlpReply codec reply),
       [CallClientHandler prepare])"
    using assms by (simp add: routeData_def split: sum.splits)
next
  assume "list_ex (\<lambda>a. a \<noteq> [])
      (String_split (CHR ''.'') (String_replace addr [] (destination prepare)))"
  then have "hasConnectionTag addr (destination prepare)"
    by (simp add: hasConnectionTag_def)
  then show "routeData codec addr server client (Some buf) =
      (server buf, [CallServerHandler buf])"
    using assms by (simp add: routeData_def)
next
  assume "\<exists>tag. destination prepare = addr @ CHR ''.'' # tag
      \<and> (\<exists>c \<in> set tag. c \<noteq> CHR ''.'')"
  then obtain tag where "destination prepare = addr @ CHR ''.'' # tag"
    and "\<exists>c \<in> set tag. c \<noteq> CHR ''.''"
    by blast
  then have "hasConnectionTag addr (destination prepare)"
    by (simp add: hasConnectionTag_extra_segment)
  then show "routeData codec addr server client (Some buf) =
      (server buf, [CallServerHandler buf])"
    using assms by (simp add: routeData_def)
qed

text \<open>
  Scenario C: with the own address g.kava.abc123, a packet for g.kava.abc123 goes to the
  client handler (here fulfilling: the result is the serialized Fulfill), and a packet
  for g.kava.abc123.~n9f goes to the server handler (here echoing the payload).
\<close>

theorem routeData_by_destination_witness:
  "routeData (example_codec ''g.kava.abc123'') ''g.kava.abc123''
       (\<lambda>buf. Inr buf) (\<lambda>p. Inr (IlpFulfill [] [])) (Some [12]) =
     (Inr [13], [CallClientHandler (example_prepare ''g.kava.abc123'')])
   \<and> routeData (example_codec ''g.kava.abc123.~n9f'') ''g.kava.abc123''
       (\<lambda>buf. Inr buf) (\<lambda>p. Inr (IlpFulfill [] [])) (Some [12]) =
     (Inr [12], [CallServerHandler [12]])"
proof -
  have own: "deserializeIlpPrepare (example_codec ''g.kava.abc123'') [12]
      = Inr (example_prepare ''g.kava.abc123'')"
    by (simp add: example_codec_def)
  have tagged: "deserializeIlpPrepare (example_codec ''g.kava.abc123.~n9f'') [12]
      = Inr (example_prepare ''g.kava.abc123.~n9f'')"
    by (simp add: example_codec_def)
  show ?thesis
    using routeData_by_destination [OF own, of "''g.kava.abc123''"
        "\<lambda>buf. Inr buf" "\<lambda>p. Inr (IlpFulfill [] [])"]
      routeData_by_destination [OF tagged, of "''g.kava.abc123''"
        "\<lambda>buf. Inr buf" "\<lambda>p. Inr (IlpFulfill [] [])"]
    by (simp add: example_prepare_def example_codec_def)
qed

text \<open>
  C10. A payload that is present and parses as a Prepare whose destination has only
  non-empty segments and does not contain the client address anywhere: removing the
  client address leaves the destination, hence each of its segments, as it is, and the
  raw payload goes to the server handler, whose outcome is the result.
\<close>

theorem routeData_foreign_destination:
  assumes "deserializeIlpPrepare codec buf = Inr prepare"
    and "nonemptySegments (destination prepare)"
    and "\<not> String_includes addr (destination prepare)"
  shows "String_split (CHR ''.'') (String_replace addr [] (destination prepare)) =
           String_split (CHR ''.'') (destination prepare)
       \<and> routeData codec addr server client (Some buf) = (server buf, [CallServerHandler buf])"
proof -
  have same: "String_replace addr [] (destination prepare) = destination prepare"
    using assms(3) by (rule String_replace_absent)
  then have "hasConnectionTag addr (destination prepare)"
    using nonemptySegments_some [OF assms(2)] by (simp add: hasConnectionTag_def)
  then show ?thesis
    using assms(1) same by (simp add: routeData_def)
qed

theorem routeData_foreign_destination_witness:
  "nonemptySegments ''g.other.xyz''
   \<and> \<not> String_includes ''g.kava.abc123'' ''g.other.xyz''
   \<and> routeData (example_codec ''g.other.xyz'') ''g.kava.abc123''
       (\<lambda>buf. Inr buf) (\<lambda>p. Inr (IlpFulfill [] [])) (Some [12]) =
     (Inr [12], [CallServerHandler [12]])"
proof -
  have parsed: "deserializeIlpPrepare (example_codec ''g.other.xyz'') [12]
      = Inr (example_prepare ''g.other.xyz'')"
    by (simp add: example_codec_def)
  have segs: "nonemptySegments (destination (example_prepare ''g.other.xyz''))"
    by (simp add: example_prepare_def nonemptySegments_def)
  have absent: "\<not> String_includes ''g.kava.abc123'' (destination (example_prepare ''g.other.xyz''))"
    by (simp add: example_prepare_def)
  show ?thesis
    using routeData_foreign_destination [OF parsed segs absent, of "\<lambda>buf. Inr buf"
        "\<lambda>p. Inr (IlpFulfill [] [])"] segs absent
    by (simp add: example_prepare_def)
qed

section \<open>Derived balance\<close>

lemma source_value_notify: "source_value (notify obs v s) = source_value s"
  by (cases obs) (simp_all add: subject_next_def subject_error_def Let_def split: sum.splits)

lemma source_value_fold_notify:
  "source_value (fold (\<lambda>obs. notify obs v) obss s) = source_value s"
  by (induction obss arbitrary: s) (simp_all add: source_value_notify)

lemma source_value_emit:
  "source_value (emit src v s) src' = (if src' = src then v else source_value s src')"
  by (simp add: emit_def source_value_fold_notify)

lemma source_value_subscribe: "source_value (subscribe src obs s) = source_value s"
  by (simp add: subscribe_def source_value_notify)

lemma source_value_fold_subscribe:
  "source_value (fold (\<lambda>(i, src). subscribe src (CombineLatestInner i)) xs s) = source_value s"
  by (induction xs arbitrary: s) (simp_all add: source_value_subscribe split: prod.splits)

lemma source_value_subscribe_combineLatest:
  "source_value (subscribe_combineLatest srcs s) = source_value s"
  by (simp add: subscribe_combineLatest_def source_value_fold_subscribe)

lemma wired_connect:
  "wired (subscribe OutgoingCapacity (Subscriber AvailableToSend)
           (subscribe IncomingCapacity (Subscriber AvailableToReceive)
             (subscribe_combineLatest [OutgoingCapacity, TotalReceived] (new_subjects uplink))))"
  by (simp add: wired_def subscribe_def subscribe_combineLatest_def new_subjects_def
      subject_next_def subject_error_def sumAll_def Let_def fun_eq_iff split: source.splits)

lemma wired_emit: "wired s \<Longrightarrow> wired (emit src v s)"
  by (cases src)
    (simp_all add: wired_def emit_def subject_next_def subject_error_def sumAll_def Let_def)

lemma wired_emissions: "wired s \<Longrightarrow> wired (emissions evs s)"
  unfolding emissions_def
  by (induction evs arbitrary: s) (auto simp: wired_emit)

section \<open>What a successful connectUplink has done\<close>

lemma connectUplink_Inr:
  assumes "connectUplink env state uplink config w = (Inr u, w')"
  shows "\<exists>settler details v registered.
      getOrCreateSettler env state (settlerType config) = Inr settler
    \<and> plugin_connect env = Inr ()
    \<and> fetchAssetDetails env = Inr details
    \<and> peer_assetCode details = assetCode settler
    \<and> peer_assetScale details = assetScale settler
    \<and> convert env (maxInFlightUsd state) (baseUnit settler) (rateBackend state) = Inr v
    \<and> startStreamServer env (serverSecret config) = (registered, Inr (streamServer u))
    \<and> handlers_ref u = next_ref w
    \<and> base u = uplink
    \<and> clientAddress u = peer_clientAddress details
    \<and> maxInFlight u = dp_ROUND_DOWN 0 v
    \<and> pluginWrapper u =
        \<lparr>maxBalance = dp_ROUND_DOWN 0 v, maxPacketAmount = dp_ROUND_DOWN 0 v,
         wrapper_assetCode = assetCode settler, wrapper_assetScale = assetScale settler,
         dataHandler = Some (\<lambda>h payload. routeData (ilp env) (peer_clientAddress details)
            (streamServerHandler (h (next_ref w))) (streamClientHandler (h (next_ref w))) payload)\<rparr>
    \<and> subject_state u =
        subscribe OutgoingCapacity (Subscriber AvailableToSend)
          (subscribe IncomingCapacity (Subscriber AvailableToReceive)
            (subscribe_combineLatest [OutgoingCapacity, TotalReceived] (new_subjects uplink)))
    \<and> calls w' = calls w @
        [GetOrCreateSettler (settlerType config), PluginConnect, FetchAssetDetails,
         GetOrCreateSettler (settlerType config), Convert,
         NewPluginWrapper (dp_ROUND_DOWN 0 v) (dp_ROUND_DOWN 0 v),
         DeregisterDataHandler, RegisterDataHandler, StartStreamServer]
    \<and> next_ref w' = Suc (next_ref w)
    \<and> heap w' = (heap w)(next_ref w :=
        \<lparr>streamServerHandler = (case registered of None \<Rightarrow> defaultDataHandler env | Some h \<Rightarrow> h),
         streamClientHandler = defaultIlpPrepareHandler env\<rparr>)"
  using assms
  unfolding connectUplink_def verifyUpstreamAssetDetails_def getNativeMaxInFlight_def
    setupHandlers_def
  by (auto simp: Let_def called_def split: sum.splits prod.splits if_splits option.splits)

lemma connectUplink_Inr_subjects:
  assumes "connectUplink env state uplink config w = (Inr u, w')"
  shows "subject_state u =
      subscribe OutgoingCapacity (Subscriber AvailableToSend)
        (subscribe IncomingCapacity (Subscriber AvailableToReceive)
          (subscribe_combineLatest [OutgoingCapacity, TotalReceived] (new_subjects uplink)))"
  using connectUplink_Inr [OF assms] by (elim exE conjE)

lemma connectUplink_Inr_maxInFlight:
  assumes "connectUplink env state uplink config w = (Inr u, w')"
  shows "\<exists>settler v.
      getOrCreateSettler env state (settlerType config) = Inr settler
    \<and> convert env (maxInFlightUsd state) (baseUnit settler) (rateBackend state) = Inr v
    \<and> maxInFlight u = dp_ROUND_DOWN 0 v
    \<and> maxBalance (pluginWrapper u) = dp_ROUND_DOWN 0 v
    \<and> maxPacketAmount (pluginWrapper u) = dp_ROUND_DOWN 0 v
    \<and> calls w' = calls w @
        [GetOrCreateSettler (settlerType config), PluginConnect, FetchAssetDetails,
         GetOrCreateSettler (settlerType config), Convert,
         NewPluginWrapper (dp_ROUND_DOWN 0 v) (dp_ROUND_DOWN 0 v),
         DeregisterDataHandler, RegisterDataHandler, StartStreamServer]"
  using connectUplink_Inr [OF assms]
  by (elim exE conjE, intro exI conjI; (assumption | simp))

lemma connectUplink_Inr_router:
  assumes "connectUplink env state uplink config w = (Inr u, w')"
  shows "dataHandler (pluginWrapper u) =
      Some (\<lambda>h payload. routeData (ilp env) (clientAddress u)
        (streamServerHandler (h (handlers_ref u))) (streamClientHandler (h (handlers_ref u)))
        payload)"
    and "handlers_ref u = next_ref w"
    and "streamClientHandler (heap w' (handlers_ref u)) = defaultIlpPrepareHandler env"
  using connectUplink_Inr [OF assms] by (elim exE conjE, simp)+

lemma connectUplink_Inr_clientAddress:
  assumes "connectUplink env state uplink config w = (Inr u, w')"
  shows "\<exists>details. fetchAssetDetails env = Inr details
    \<and> clientAddress u = peer_clientAddress details"
  using connectUplink_Inr [OF assms]
  by (elim exE conjE, intro exI conjI; (assumption | simp))

lemma connectUplink_example:
  "\<exists>u w'. connectUplink example_env example_state example_uplink example_config example_world
      = (Inr u, w')"
  by (simp add: connectUplink_def verifyUpstreamAssetDetails_def getNativeMaxInFlight_def
      setupHandlers_def example_env_def example_world_def example_config_def Let_def called_def)

text \<open>
  C1. On the uplink that \<^verbatim>\<open>connectUplink\<close> returns, after any sequence of emissions of the
  sources, \<^verbatim>\<open>balance$\<close> has not errored and holds the sum of the values that
  \<^verbatim>\<open>outgoingCapacity$\<close> and \<^verbatim>\<open>totalReceived$\<close> emitted last; one more emission of either
  makes it the emitted value plus the value the other one holds.
\<close>

theorem balance_is_latest_sum:
  assumes "connectUplink env state uplink config w = (Inr u, w')"
  shows "derived_error (emissions evs (subject_state u)) Balance = None
       \<and> derived_value (emissions evs (subject_state u)) Balance =
           source_value (emissions evs (subject_state u)) OutgoingCapacity
           + source_value (emissions evs (subject_state u)) TotalReceived
       \<and> derived_value (emit OutgoingCapacity v (emissions evs (subject_state u))) Balance =
           v + source_value (emissions evs (subject_state u)) TotalReceived
       \<and> derived_value (emit TotalReceived v (emissions evs (subject_state u))) Balance =
           source_value (emissions evs (subject_state u)) OutgoingCapacity + v"
proof -
  have "wired (subject_state u)"
    using connectUplink_Inr_subjects [OF assms] wired_connect by simp
  then have inv: "wired (emissions evs (subject_state u))"
    by (rule wired_emissions)
  have oc: "wired (emit OutgoingCapacity v (emissions evs (subject_state u)))"
    using inv by (rule wired_emit)
  have tr: "wired (emit TotalReceived v (emissions evs (subject_state u)))"
    using inv by (rule wired_emit)
  show ?thesis
    using inv oc tr by (simp add: wired_def source_value_emit)
qed

text \<open>
  Scenario A: the uplink is connected with outgoingCapacity 10 and totalReceived 5 and
  the balance is 15; outgoingCapacity then emits 7 and the balance is 12.
\<close>

theorem balance_is_latest_sum_witness:
  "\<exists>u w'. connectUplink example_env example_state example_uplink example_config example_world
       = (Inr u, w')
     \<and> derived_value (subject_state u) Balance = 15
     \<and> derived_value (emit OutgoingCapacity 7 (subject_state u)) Balance = 12"
proof -
  obtain u w' where
    c: "connectUplink example_env example_state example_uplink example_config example_world
      = (Inr u, w')"
    using connectUplink_example by blast
  have s: "subject_state u =
      subscribe OutgoingCapacity (Subscriber AvailableToSend)
        (subscribe IncomingCapacity (Subscriber AvailableToReceive)
          (subscribe_combineLatest [OutgoingCapacity, TotalReceived] (new_subjects example_uplink)))"
    by (rule connectUplink_Inr_subjects [OF c])
  have oc: "source_value (subject_state u) OutgoingCapacity = 10"
    and tr: "source_value (subject_state u) TotalReceived = 5"
    unfolding s
    by (simp_all add: source_value_subscribe source_value_subscribe_combineLatest
        new_subjects_def example_uplink_def)
  have "derived_value (subject_state u) Balance = 15
      \<and> derived_value (emit OutgoingCapacity 7 (subject_state u)) Balance = 12"
    using balance_is_latest_sum [OF c, of "[]" 7] oc tr
    by (simp add: emissions_def)
  then show ?thesis
    using c by blast
qed

section \<open>Asset verification\<close>

lemma calls_since_append: "calls w' = calls w @ cs \<Longrightarrow> calls_since w w' = cs"
  by (simp add: calls_since_def)

lemma connectUplink_mismatch:
  assumes "getOrCreateSettler env state (settlerType config) = Inr settler"
    and "plugin_connect env = Inr ()"
    and "fetchAssetDetails env = Inr details"
    and "peer_assetCode details \<noteq> assetCode settler
         \<or> peer_assetScale details \<noteq> assetScale settler"
  shows "connectUplink env state uplink config w =
      (Inl (case plugin_disconnect env of Inl e \<Rightarrow> e | Inr x \<Rightarrow> incompatiblePeer),
       w\<lparr>calls := calls w @ [GetOrCreateSettler (settlerType config), PluginConnect,
                              FetchAssetDetails, PluginDisconnect]\<rparr>)"
  using assms
  by (auto simp: connectUplink_def verifyUpstreamAssetDetails_def Let_def called_def
      split: sum.splits)

text \<open>
  C4, as amended. When the settler is resolved, the transport connects and the handshake
  answers with an asset code or scale that differs from the settler's, \<^verbatim>\<open>connectUplink\<close>
  calls \<^verbatim>\<open>plugin.disconnect\<close> exactly once, as the last of its calls, and rejects, so no
  ReadyUplink is produced and the heap is untouched. It rejects with the
  incompatible-peer error when the disconnect succeeds, and with the error of the
  disconnect when that fails.
\<close>

theorem connectUplink_incompatible_peer:
  assumes "getOrCreateSettler env state (settlerType config) = Inr settler"
    and "plugin_connect env = Inr ()"
    and "fetchAssetDetails env = Inr details"
    and "peer_assetCode details \<noteq> assetCode settler
         \<or> peer_assetScale details \<noteq> assetScale settler"
  shows "fst (connectUplink env state uplink config w) =
           Inl (case plugin_disconnect env of Inl e \<Rightarrow> e | Inr x \<Rightarrow> incompatiblePeer)
       \<and> calls_since w (snd (connectUplink env state uplink config w)) =
           [GetOrCreateSettler (settlerType config), PluginConnect, FetchAssetDetails,
            PluginDisconnect]
       \<and> count_list (calls_since w (snd (connectUplink env state uplink config w)))
           PluginDisconnect = 1
       \<and> heap (snd (connectUplink env state uplink config w)) = heap w"
  by (simp add: connectUplink_mismatch [OF assms] calls_since_def)

text \<open>
  Scenario B: the settler's asset is XRP, the handshake answers ETH, and the disconnect
  succeeds: \<^verbatim>\<open>connectUplink\<close> rejects with the incompatible-peer error after one disconnect.
\<close>

theorem connectUplink_incompatible_peer_witness:
  "fst (connectUplink (example_env_mismatch (Inr ())) example_state example_uplink
          example_config example_world) = Inl incompatiblePeer
   \<and> calls (snd (connectUplink (example_env_mismatch (Inr ())) example_state example_uplink
          example_config example_world)) =
       [GetOrCreateSettler XrpPaychan, PluginConnect, FetchAssetDetails, PluginDisconnect]"
proof -
  have settler: "getOrCreateSettler (example_env_mismatch (Inr ())) example_state
      (settlerType example_config) = Inr \<lparr>assetCode = ''XRP'', assetScale = 6, baseUnit = 6\<rparr>"
    by (simp add: example_env_mismatch_def example_env_def)
  have connected: "plugin_connect (example_env_mismatch (Inr ())) = Inr ()"
    by (simp add: example_env_mismatch_def example_env_def)
  have details: "fetchAssetDetails (example_env_mismatch (Inr ())) =
      Inr \<lparr>peer_clientAddress = ''g.kava.abc123'', peer_assetCode = ''ETH'',
           peer_assetScale = 9\<rparr>"
    by (simp add: example_env_mismatch_def)
  have differs: "peer_assetCode \<lparr>peer_clientAddress = ''g.kava.abc123'', peer_assetCode = ''ETH'',
        peer_assetScale = 9\<rparr> \<noteq> assetCode \<lparr>assetCode = ''XRP'', assetScale = 6, baseUnit = 6::nat\<rparr>
      \<or> peer_assetScale \<lparr>peer_clientAddress = ''g.kava.abc123'', peer_assetCode = ''ETH'',
        peer_assetScale = 9\<rparr> \<noteq> assetScale \<lparr>assetCode = ''XRP'', assetScale = 6, baseUnit = 6::nat\<rparr>"
    by simp
  show ?thesis
    using connectUplink_incompatible_peer [OF settler connected details differs,
        of example_uplink example_world]
    by (simp add: calls_since_def example_world_def example_config_def
        example_env_mismatch_def)
qed

text \<open>
  The claim as first stated has the rejection be the incompatible-peer error in every
  case. With the same mismatch and a transport whose disconnect fails,
  \<^verbatim>\<open>connectUplink\<close> rejects with the error of the disconnect instead.
\<close>

theorem connectUplink_incompatible_peer_counterexample:
  "peer_assetCode \<lparr>peer_clientAddress = ''g.kava.abc123'', peer_assetCode = ''ETH'',
        peer_assetScale = 9\<rparr> \<noteq> assetCode \<lparr>assetCode = ''XRP'', assetScale = 6, baseUnit = 6::nat\<rparr>
   \<and> getOrCreateSettler (example_env_mismatch (Inl (Error ''socket closed''))) example_state
        (settlerType example_config) = Inr \<lparr>assetCode = ''XRP'', assetScale = 6, baseUnit = 6\<rparr>
   \<and> plugin_connect (example_env_mismatch (Inl (Error ''socket closed''))) = Inr ()
   \<and> fetchAssetDetails (example_env_mismatch (Inl (Error ''socket closed''))) =
        Inr \<lparr>peer_clientAddress = ''g.kava.abc123'', peer_assetCode = ''ETH'', peer_assetScale = 9\<rparr>
   \<and> fst (connectUplink (example_env_mismatch (Inl (Error ''socket closed''))) example_state
        example_uplink example_config example_world) = Inl (Error ''socket closed'')
   \<and> Error ''socket closed'' \<noteq> incompatiblePeer"
  by (simp add: connectUplink_def verifyUpstreamAssetDetails_def Let_def called_def
      example_env_mismatch_def example_env_def incompatiblePeer_def)

section \<open>Maximum in flight\<close>

lemma dp_ROUND_DOWN_0: "dp_ROUND_DOWN 0 v = of_int (if 0 \<le> v then \<lfloor>v\<rfloor> else \<lceil>v\<rceil>)"
  by (simp add: dp_ROUND_DOWN_def)

lemma dp_ROUND_DOWN_0_abs: "\<bar>dp_ROUND_DOWN 0 v\<bar> \<le> \<bar>v\<bar>"
proof (cases "0 \<le> v")
  case True
  then have "0 \<le> \<lfloor>v\<rfloor>" by simp
  then have "\<bar>(of_int \<lfloor>v\<rfloor> :: rat)\<bar> = of_int \<lfloor>v\<rfloor>" by simp
  then show ?thesis using True by (simp add: dp_ROUND_DOWN_0)
next
  case False
  then have "\<lceil>v\<rceil> \<le> 0" by (simp add: ceiling_le_zero)
  then have "\<bar>(of_int \<lceil>v\<rceil> :: rat)\<bar> = - of_int \<lceil>v\<rceil>" by simp
  moreover have "\<bar>v\<bar> = - v" using False by simp
  ultimately show ?thesis using False by (simp add: dp_ROUND_DOWN_0)
qed

text \<open>
  C6. On a successful \<^verbatim>\<open>connectUplink\<close> the conversion of the USD ceiling to the base unit
  of the settler is made exactly once; \<^verbatim>\<open>maxInFlight\<close> is its result with the fraction cut
  off (\<^verbatim>\<open>ROUND_DOWN\<close> rounds towards zero, which is the floor of every result that is not
  negative), hence an integer; and the wrapper is constructed with this one value as both
  \<^verbatim>\<open>maxBalance\<close> and \<^verbatim>\<open>maxPacketAmount\<close>.
\<close>

theorem maxInFlight_rounded_down:
  assumes "connectUplink env state uplink config w = (Inr u, w')"
  shows "\<exists>settler v.
      getOrCreateSettler env state (settlerType config) = Inr settler
    \<and> convert env (maxInFlightUsd state) (baseUnit settler) (rateBackend state) = Inr v
    \<and> maxInFlight u = of_int (if 0 \<le> v then \<lfloor>v\<rfloor> else \<lceil>v\<rceil>)
    \<and> \<bar>maxInFlight u\<bar> \<le> \<bar>v\<bar>
    \<and> maxInFlight u \<in> \<int>
    \<and> count_list (calls_since w w') Convert = 1
    \<and> maxBalance (pluginWrapper u) = maxInFlight u
    \<and> maxPacketAmount (pluginWrapper u) = maxInFlight u
    \<and> count_list (calls_since w w') (NewPluginWrapper (maxInFlight u) (maxInFlight u)) = 1"
proof -
  from connectUplink_Inr_maxInFlight [OF assms] obtain settler v where
    settler: "getOrCreateSettler env state (settlerType config) = Inr settler"
    and conv: "convert env (maxInFlightUsd state) (baseUnit settler) (rateBackend state) = Inr v"
    and m: "maxInFlight u = dp_ROUND_DOWN 0 v"
    and both': "maxBalance (pluginWrapper u) = dp_ROUND_DOWN 0 v"
      "maxPacketAmount (pluginWrapper u) = dp_ROUND_DOWN 0 v"
    and cs: "calls w' = calls w @
        [GetOrCreateSettler (settlerType config), PluginConnect, FetchAssetDetails,
         GetOrCreateSettler (settlerType config), Convert,
         NewPluginWrapper (dp_ROUND_DOWN 0 v) (dp_ROUND_DOWN 0 v),
         DeregisterDataHandler, RegisterDataHandler, StartStreamServer]"
    by blast
  have trunc: "maxInFlight u = of_int (if 0 \<le> v then \<lfloor>v\<rfloor> else \<lceil>v\<rceil>)"
    using m by (simp only: dp_ROUND_DOWN_0)
  have bound: "\<bar>maxInFlight u\<bar> \<le> \<bar>v\<bar>"
    using m dp_ROUND_DOWN_0_abs [of v] by simp
  have integral: "maxInFlight u \<in> \<int>"
    unfolding trunc by (rule Ints_of_int)
  have once: "count_list (calls_since w w') Convert = 1"
    and built: "count_list (calls_since w w')
        (NewPluginWrapper (maxInFlight u) (maxInFlight u)) = 1"
    using calls_since_append [OF cs] m by simp_all
  have both: "maxBalance (pluginWrapper u) = maxInFlight u"
    "maxPacketAmount (pluginWrapper u) = maxInFlight u"
    using both' m by simp_all
  show ?thesis
    using settler conv trunc bound integral once both built by blast
qed

text \<open>
  With a ceiling of 10 cents at 10/3 XRP to the dollar and 6 decimal places, the
  conversion gives 333333 and a third, and the wrapper is built with 333333 twice.
\<close>

theorem maxInFlight_rounded_down_witness:
  "\<exists>u w'. connectUplink example_env example_state example_uplink example_config example_world
       = (Inr u, w')
     \<and> maxInFlight u = 333333
     \<and> maxBalance (pluginWrapper u) = 333333
     \<and> maxPacketAmount (pluginWrapper u) = 333333"
proof -
  obtain u w' where
    c: "connectUplink example_env example_state example_uplink example_config example_world
      = (Inr u, w')"
    using connectUplink_example by blast
  obtain settler v where
    settler: "getOrCreateSettler example_env example_state (settlerType example_config)
      = Inr settler"
    and conv: "convert example_env (maxInFlightUsd example_state) (baseUnit settler)
      (rateBackend example_state) = Inr v"
    and m: "maxInFlight u = of_int (if 0 \<le> v then \<lfloor>v\<rfloor> else \<lceil>v\<rceil>)"
    and both: "maxBalance (pluginWrapper u) = maxInFlight u"
      "maxPacketAmount (pluginWrapper u) = maxInFlight u"
    using maxInFlight_rounded_down [OF c] by blast
  have "baseUnit settler = 6"
    using settler by (auto simp: example_env_def)
  then have "Inr v = (Inr (1000000 / 3) :: error + rat)"
    using conv by (simp add: example_env_def example_state_def)
  then have v: "v = 1000000 / 3"
    by (simp only: sum.inject)
  have "\<lfloor>1000000 / 3 :: rat\<rfloor> = 333333"
    by (rule floor_unique) simp_all
  then have "maxInFlight u = 333333"
    using m unfolding v by simp
  then show ?thesis
    using c both by auto
qed

section \<open>Handler registration\<close>

lemma registerPacketHandler_slot:
  "streamClientHandler (heap (registerPacketHandler handler u w) (handlers_ref u)) = handler"
  by (simp add: registerPacketHandler_def)

lemma routeData_root:
  assumes "deserializeIlpPrepare codec buf = Inr prepare"
    and "destination prepare = addr"
  shows "routeData codec addr server client (Some buf) =
      ((case client prepare of Inl e \<Rightarrow> Inl e | Inr reply \<Rightarrow> serializeIlpReply codec reply),
       [CallClientHandler prepare])"
  using assms by (simp add: routeData_def hasConnectionTag_self split: sum.splits)

text \<open>
  Registration takes effect: after \<^verbatim>\<open>registerPacketHandler\<close> the router of a connected
  uplink gives a root-addressed Prepare to the handler just registered.
\<close>

lemma registered_client_handler_is_used:
  assumes "connectUplink env state uplink config w = (Inr u, w1)"
    and "deserializeIlpPrepare (ilp env) buf = Inr prepare"
    and "destination prepare = clientAddress u"
  shows "\<exists>router. dataHandler (pluginWrapper u) = Some router
     \<and> router (heap (registerPacketHandler handler u w2)) (Some buf) =
         ((case handler prepare of
             Inl e \<Rightarrow> Inl e
           | Inr reply \<Rightarrow> serializeIlpReply (ilp env) reply),
          [CallClientHandler prepare])"
  using connectUplink_Inr_router(1) [OF assms(1)] routeData_root [OF assms(2,3)]
  by (simp add: registerPacketHandler_slot)

text \<open>
  C8. On the uplink that \<^verbatim>\<open>connectUplink\<close> returns, whatever handlers were registered
  before, after \<^verbatim>\<open>deregisterPacketHandler\<close> the client-handler slot holds the default
  handler, and the router gives a Prepare addressed to exactly the client address to the
  default handler: the result is the default handler's Reply, serialized (or its
  rejection), and does not depend on the handlers registered earlier.
\<close>

theorem deregistered_client_handler_is_default:
  assumes "connectUplink env state uplink config w = (Inr u, w1)"
    and "deserializeIlpPrepare (ilp env) buf = Inr prepare"
    and "destination prepare = clientAddress u"
  shows "\<exists>router. dataHandler (pluginWrapper u) = Some router
     \<and> streamClientHandler
         (heap (deregisterPacketHandler env u (fold (\<lambda>h. registerPacketHandler h u) hs w1))
            (handlers_ref u)) = defaultIlpPrepareHandler env
     \<and> router
         (heap (deregisterPacketHandler env u (fold (\<lambda>h. registerPacketHandler h u) hs w1)))
         (Some buf) =
         ((case defaultIlpPrepareHandler env prepare of
             Inl e \<Rightarrow> Inl e
           | Inr reply \<Rightarrow> serializeIlpReply (ilp env) reply),
          [CallClientHandler prepare])"
  using connectUplink_Inr_router(1) [OF assms(1)] routeData_root [OF assms(2,3)]
  by (simp add: deregisterPacketHandler_def registerPacketHandler_slot)

text \<open>
  On the example uplink a fulfilling handler is registered and then deregistered: a
  packet for g.kava.abc123 is answered with the default handler's Reject (type byte 14),
  not with a Fulfill (13).
\<close>

theorem deregistered_client_handler_is_default_witness:
  "\<exists>u w1 router.
     connectUplink example_env example_state example_uplink example_config example_world
       = (Inr u, w1)
     \<and> dataHandler (pluginWrapper u) = Some router
     \<and> router (heap (registerPacketHandler (\<lambda>p. Inr (IlpFulfill [] [])) u w1)) (Some [12]) =
         (Inr [13], [CallClientHandler (example_prepare ''g.kava.abc123'')])
     \<and> router
         (heap (deregisterPacketHandler example_env u
            (registerPacketHandler (\<lambda>p. Inr (IlpFulfill [] [])) u w1)))
         (Some [12]) =
         (Inr [14], [CallClientHandler (example_prepare ''g.kava.abc123'')])"
proof -
  obtain u w1 where
    c: "connectUplink example_env example_state example_uplink example_config example_world
      = (Inr u, w1)"
    using connectUplink_example by blast
  have addr: "clientAddress u = ''g.kava.abc123''"
    using connectUplink_Inr_clientAddress [OF c] by (auto simp: example_env_def)
  have parsed: "deserializeIlpPrepare (ilp example_env) [12]
      = Inr (example_prepare ''g.kava.abc123'')"
    by (simp add: example_env_def example_codec_def)
  have dest: "destination (example_prepare ''g.kava.abc123'') = clientAddress u"
    by (simp add: addr example_prepare_def)
  obtain router where r: "dataHandler (pluginWrapper u) = Some router"
    and d: "router
        (heap (deregisterPacketHandler example_env u
           (fold (\<lambda>h. registerPacketHandler h u) [\<lambda>p. Inr (IlpFulfill [] [])] w1)))
        (Some [12]) =
        ((case defaultIlpPrepareHandler example_env (example_prepare ''g.kava.abc123'') of
            Inl e \<Rightarrow> Inl e
          | Inr reply \<Rightarrow> serializeIlpReply (ilp example_env) reply),
         [CallClientHandler (example_prepare ''g.kava.abc123'')])"
    using deregistered_client_handler_is_default [OF c parsed dest,
        of "[\<lambda>p. Inr (IlpFulfill [] [])]"]
    by blast
  have g: "router (heap (registerPacketHandler (\<lambda>p. Inr (IlpFulfill [] [])) u w1)) (Some [12]) =
      (Inr [13], [CallClientHandler (example_prepare ''g.kava.abc123'')])"
    using registered_client_handler_is_used [OF c parsed dest,
        of "\<lambda>p. Inr (IlpFulfill [] [])" w1] r
    by (simp add: example_env_def example_codec_def)
  have "router
      (heap (deregisterPacketHandler example_env u
         (registerPacketHandler (\<lambda>p. Inr (IlpFulfill [] [])) u w1)))
      (Some [12]) =
      (Inr [14], [CallClientHandler (example_prepare ''g.kava.abc123'')])"
    using d by (simp add: example_env_def example_codec_def)
  then show ?thesis
    using c r g by blast
qed

section \<open>Sending a packet\<close>

lemma sendPacket_result:
  "fst (sendPacket env uplink prepare w) =
     (case serializeIlpPrepare (ilp env) prepare of
        Inl e \<Rightarrow> Inl e
      | Inr buf \<Rightarrow>
          (case wrapper_sendData env buf of
             Inl e \<Rightarrow> Inl e
           | Inr reply \<Rightarrow> deserializeIlpReply (ilp env) reply))"
  by (simp add: sendPacket_def Let_def split: sum.splits prod.splits)

lemma sendPacket_calls:
  "calls (snd (sendPacket env uplink prepare w)) =
     calls w @ SendMoney (payableBalance env - of_nat (amount prepare))
       # (case serializeIlpPrepare (ilp env) prepare of
            Inl e \<Rightarrow> []
          | Inr buf \<Rightarrow> [SendData buf])"
  by (simp add: sendPacket_def Let_def called_def log_error_def split: sum.splits prod.splits)

lemma sendPacket_logged:
  "logged (snd (sendPacket env uplink prepare w)) =
     logged w @
       (case fst (wrapper_sendMoney env (payableBalance env - of_nat (amount prepare))) of
          Inl err \<Rightarrow> [(''Error during outgoing settlement: '', err)]
        | Inr x \<Rightarrow> [])"
  by (simp add: sendPacket_def Let_def called_def log_error_def split: sum.splits prod.splits)

lemma sendPacket_transfers:
  "transfers (snd (sendPacket env uplink prepare w)) =
     transfers w @ snd (wrapper_sendMoney env (payableBalance env - of_nat (amount prepare)))"
  by (simp add: sendPacket_def Let_def called_def log_error_def split: sum.splits prod.splits)

text \<open>
  The docstring of \<^verbatim>\<open>sendPacket\<close> has it prefund the value of the packet, and the amount
  it requests is named \<^verbatim>\<open>additionalPrefundRequired\<close>. The amount the code requests is the
  payable balance minus the amount of the Prepare: it shrinks as the packet grows, and
  with a payable balance of 0 no packet, however large, is ever prefunded.
\<close>

lemma sendPacket_request_shrinks:
  assumes "amount p \<le> amount p'"
  shows "\<exists>a a'. SendMoney a \<in> set (calls_since w (snd (sendPacket env uplink p w)))
     \<and> SendMoney a' \<in> set (calls_since w (snd (sendPacket env uplink p' w)))
     \<and> a' \<le> a"
proof -
  have "SendMoney (payableBalance env - of_nat (amount p))
      \<in> set (calls_since w (snd (sendPacket env uplink p w)))"
    and "SendMoney (payableBalance env - of_nat (amount p'))
      \<in> set (calls_since w (snd (sendPacket env uplink p' w)))"
    by (simp_all add: calls_since_def sendPacket_calls)
  moreover have "payableBalance env - of_nat (amount p') \<le> payableBalance env - of_nat (amount p)"
    using assms by simp
  ultimately show ?thesis by blast
qed

lemma sendPacket_fresh_never_prefunds:
  assumes "payableBalance env = 0"
  shows "\<not> (\<exists>a. 0 < a
     \<and> SendMoney a \<in> set (calls_since w (snd (sendPacket env uplink prepare w))))"
  using assms by (auto simp: calls_since_def sendPacket_calls split: sum.splits)

text \<open>
  C2. The claim has no call of \<^verbatim>\<open>sendMoney\<close> with a strictly positive amount whenever the
  payable balance is at least the amount of the Prepare. The code does not keep it: with
  the payable balance 130 and the amount 100 the condition holds, and \<^verbatim>\<open>sendPacket\<close> calls
  \<^verbatim>\<open>sendMoney\<close> with 30 before it sends the packet.
\<close>

theorem sendPacket_positive_settlement_at_130_100:
  "of_nat (amount (example_prepare ''g.conn.bob'')) \<le> payableBalance (example_env\<lparr>payableBalance := 130\<rparr>)
   \<and> calls (snd (sendPacket (example_env\<lparr>payableBalance := 130\<rparr>) example_ready
        (example_prepare ''g.conn.bob'') example_world)) = [SendMoney 30, SendData [12]]
   \<and> (0::rat) < 30"
  by (simp add: sendPacket_calls example_env_def example_prepare_def example_world_def
      example_codec_def)

text \<open>
  C3. \<^verbatim>\<open>sendPacket\<close> calls the wrapper's \<^verbatim>\<open>sendMoney\<close> first, with the payable balance it
  read minus the amount of the Prepare, and then, whatever that amount is, serializes the
  Prepare and calls \<^verbatim>\<open>sendData\<close> with the bytes (no bytes, no call), the result being the
  outcome of the transmission. With the wrapper of the spec, an amount that is not
  positive makes the settlement a no-op: nothing is transferred and nothing is logged.
\<close>

theorem sendPacket_prefund_amount:
  assumes "wrapper_sendMoney env = PluginWrapper_sendMoney transport_sendMoney"
  shows "calls_since w (snd (sendPacket env uplink prepare w)) =
           SendMoney (payableBalance env - of_nat (amount prepare))
             # (case serializeIlpPrepare (ilp env) prepare of
                  Inl e \<Rightarrow> []
                | Inr buf \<Rightarrow> [SendData buf])
       \<and> fst (sendPacket env uplink prepare w) =
           (case serializeIlpPrepare (ilp env) prepare of
              Inl e \<Rightarrow> Inl e
            | Inr buf \<Rightarrow>
                (case wrapper_sendData env buf of
                   Inl e \<Rightarrow> Inl e
                 | Inr reply \<Rightarrow> deserializeIlpReply (ilp env) reply))
       \<and> (payableBalance env - of_nat (amount prepare) \<le> 0 \<longrightarrow>
            transfers (snd (sendPacket env uplink prepare w)) = transfers w
            \<and> logged (snd (sendPacket env uplink prepare w)) = logged w)"
  by (simp add: calls_since_def sendPacket_calls sendPacket_result sendPacket_transfers
      sendPacket_logged assms PluginWrapper_sendMoney_def)

text \<open>
  Scenario D: the amount is 100 and the payable balance 30; \<^verbatim>\<open>sendMoney\<close> is called with
  -70, nothing is transferred, and the packet is sent and answered with a Fulfill.
\<close>

theorem sendPacket_prefund_amount_witness:
  "sendPacket example_env example_ready (example_prepare ''g.conn.bob'') example_world =
     (Inr (IlpFulfill [] []),
      example_world\<lparr>calls := [SendMoney (- 70), SendData [12]]\<rparr>)"
proof -
  have w: "wrapper_sendMoney example_env = PluginWrapper_sendMoney (\<lambda>amt. Inr ())"
    by (simp add: example_env_def)
  show ?thesis
    using sendPacket_prefund_amount [OF w, where w = example_world
        and uplink = example_ready and prepare = "example_prepare ''g.conn.bob''"]
    by (simp add: sendPacket_def Let_def called_def PluginWrapper_sendMoney_def
        example_env_def example_prepare_def example_world_def example_codec_def)
qed

text \<open>
  C7. A rejection of the wrapper's \<^verbatim>\<open>sendMoney\<close> is logged and has no other effect on
  \<^verbatim>\<open>sendPacket\<close>: its result is the same whatever \<^verbatim>\<open>sendMoney\<close> does, and it is a
  rejection exactly when the serialization of the Prepare throws, \<^verbatim>\<open>sendData\<close> rejects or
  the deserialization of the reply throws.
\<close>

theorem sendPacket_ignores_settlement_failure:
  "fst (sendPacket (env\<lparr>wrapper_sendMoney := settle\<rparr>) uplink prepare w) =
     fst (sendPacket env uplink prepare w)
   \<and> logged (snd (sendPacket env uplink prepare w)) =
       logged w @
         (case fst (wrapper_sendMoney env (payableBalance env - of_nat (amount prepare))) of
            Inl err \<Rightarrow> [(''Error during outgoing settlement: '', err)]
          | Inr x \<Rightarrow> [])
   \<and> ((\<exists>e. fst (sendPacket env uplink prepare w) = Inl e) \<longleftrightarrow>
        (\<exists>e. serializeIlpPrepare (ilp env) prepare = Inl e)
        \<or> (\<exists>buf e. serializeIlpPrepare (ilp env) prepare = Inr buf
              \<and> wrapper_sendData env buf = Inl e)
        \<or> (\<exists>buf reply e. serializeIlpPrepare (ilp env) prepare = Inr buf
              \<and> wrapper_sendData env buf = Inr reply
              \<and> deserializeIlpReply (ilp env) reply = Inl e))"
proof (intro conjI)
  show "fst (sendPacket (env\<lparr>wrapper_sendMoney := settle\<rparr>) uplink prepare w) =
      fst (sendPacket env uplink prepare w)"
    by (simp add: sendPacket_result cong: sum.case_cong)
  show "logged (snd (sendPacket env uplink prepare w)) =
      logged w @
        (case fst (wrapper_sendMoney env (payableBalance env - of_nat (amount prepare))) of
           Inl err \<Rightarrow> [(''Error during outgoing settlement: '', err)]
         | Inr x \<Rightarrow> [])"
    by (rule sendPacket_logged)
  show "(\<exists>e. fst (sendPacket env uplink prepare w) = Inl e) \<longleftrightarrow>
      (\<exists>e. serializeIlpPrepare (ilp env) prepare = Inl e)
      \<or> (\<exists>buf e. serializeIlpPrepare (ilp env) prepare = Inr buf
            \<and> wrapper_sendData env buf = Inl e)
      \<or> (\<exists>buf reply e. serializeIlpPrepare (ilp env) prepare = Inr buf
            \<and> wrapper_sendData env buf = Inr reply
            \<and> deserializeIlpReply (ilp env) reply = Inl e)"
    by (auto simp: sendPacket_result split: sum.splits)
qed

text \<open>
  With a wrapper whose settlement fails, the packet is still sent and fulfilled, and the
  failure is in the log.
\<close>

theorem sendPacket_ignores_settlement_failure_witness:
  "sendPacket (example_env\<lparr>wrapper_sendMoney := (\<lambda>amt. (Inl (Error ''no channel''), []))\<rparr>)
       example_ready (example_prepare ''g.conn.bob'') example_world =
     (Inr (IlpFulfill [] []),
      example_world\<lparr>calls := [SendMoney (- 70), SendData [12]],
        logged := [(''Error during outgoing settlement: '', Error ''no channel'')]\<rparr>)"
  using sendPacket_ignores_settlement_failure [where env = example_env
      and settle = "\<lambda>amt. (Inl (Error ''no channel''), [])" and uplink = example_ready
      and prepare = "example_prepare ''g.conn.bob''" and w = example_world]
  by (simp add: sendPacket_def Let_def called_def log_error_def example_env_def
      example_prepare_def example_world_def example_codec_def)

section \<open>Teardown\<close>

text \<open>
  C9. \<^verbatim>\<open>disconnect\<close> stops the stream server and then disconnects the transport, in this
  order and whether or not the stop failed; a failure of the stop is logged and nothing
  else is; the outcome of \<^verbatim>\<open>disconnect\<close> is the outcome of the transport's disconnect, so
  a failure of that one reaches the caller.
\<close>

theorem disconnect_stops_server_first:
  "calls_since w (snd (disconnect env uplink w)) = [StopStreamServer, PluginDisconnect]
   \<and> fst (disconnect env uplink w) = plugin_disconnect env
   \<and> logged (snd (disconnect env uplink w)) =
       logged w @
         (case stopStreamServer env (streamServer uplink) of
            Inl err \<Rightarrow> [(''Error stopping Stream server: '', err)]
          | Inr x \<Rightarrow> [])"
  by (simp add: disconnect_def calls_since_def called_def log_error_def Let_def
      split: sum.splits)

text \<open>
  With a stream server that fails to stop and a transport that fails to disconnect, both
  calls are made, the first failure is logged and the second is the result.
\<close>

theorem disconnect_stops_server_first_witness:
  "disconnect
       (example_env\<lparr>plugin_disconnect := Inl (Error ''socket closed''),
          stopStreamServer := (\<lambda>server. Inl (Error ''server already closed''))\<rparr>)
       example_ready example_world =
     (Inl (Error ''socket closed''),
      example_world\<lparr>calls := [StopStreamServer, PluginDisconnect],
        logged := [(''Error stopping Stream server: '', Error ''server already closed'')]\<rparr>)"
  using disconnect_stops_server_first [where w = example_world
      and env = "example_env\<lparr>plugin_disconnect := Inl (Error ''socket closed''),
          stopStreamServer := (\<lambda>server. Inl (Error ''server already closed''))\<rparr>"
      and uplink = example_ready]
  by (simp add: disconnect_def Let_def called_def log_error_def example_env_def
      example_world_def)

end
